theory Spec2Isabelle
  imports Complex_Main
begin

section \<open>Python values and exceptions\<close>

text \<open>
  The two modules under study, \<^verbatim>\<open>codex/config.py\<close> and \<^verbatim>\<open>codex/cli/processor.py\<close>, are
  Python 3. Command-line arguments and the entries of the JSON configuration are
  dynamically typed, and the code inspects their type at run time (\<^verbatim>\<open>isinstance\<close>,
  \<^verbatim>\<open>is None\<close>), so they are modelled by a datatype of Python values. A \<^verbatim>\<open>bool\<close> is kept
  apart from an \<^verbatim>\<open>int\<close> although Python makes it a subclass: every operation below says
  what it does on a \<^verbatim>\<open>bool\<close>. A \<^verbatim>\<open>float\<close> is read as the real number it denotes; the
  code only compares such a value with zero and subtracts one from it, rounding, NaN
  and the infinities are not modelled. A \<^verbatim>\<open>dict\<close> is the list of its items, with keys
  that are strings, as JSON has them.
\<close>

datatype pyval =
    PyNone
  | PyBool bool
  | PyInt int
  | PyFloat real
  | PyStr string
  | PyTuple "pyval list"
  | PyList "pyval list"
  | PyDict "(string \<times> pyval) list"

text \<open>
  Every \<^verbatim>\<open>raise\<close> statement of the two modules raises \<^verbatim>\<open>ValueError\<close>. The model keeps the
  raising sites apart by a tag, and names each tagged error as the specification's
  taxonomy does. The remaining constructors are the exceptions Python itself raises
  in the operations used.
\<close>

datatype site =
    MissingConfig       \<comment> \<open>\<^verbatim>\<open>_load_json_config\<close>, \<^verbatim>\<open>_load_channel_names\<close>\<close>
  | Validation          \<comment> \<open>\<^verbatim>\<open>CodexConfigV1._validate\<close>\<close>
  | Range               \<comment> \<open>\<^verbatim>\<open>Config.get_tile_coordinates\<close>\<close>
  | Lookup              \<comment> \<open>\<^verbatim>\<open>Config.get_channel_coordinates\<close>\<close>
  | UnsupportedMode     \<comment> \<open>\<^verbatim>\<open>tiling.get_tiling_by_name\<close>\<close>
  | Parse               \<comment> \<open>the builtin \<^verbatim>\<open>int\<close> on a string\<close>
  | ListIndex           \<comment> \<open>the builtin \<^verbatim>\<open>list.index\<close>\<close>

datatype error =
    ValueError site
  | TypeError
  | KeyError
  | IndexError
  | ZeroDivisionError

abbreviation MissingConfigError :: error where "MissingConfigError \<equiv> ValueError MissingConfig"
abbreviation ValidationError :: error where "ValidationError \<equiv> ValueError Validation"
abbreviation RangeError :: error where "RangeError \<equiv> ValueError Range"
abbreviation LookupError :: error where "LookupError \<equiv> ValueError Lookup"
abbreviation UnsupportedModeError :: error where "UnsupportedModeError \<equiv> ValueError UnsupportedMode"
abbreviation ParseError :: error where "ParseError \<equiv> ValueError Parse"

subsection \<open>Builtins\<close>

text \<open>\<^verbatim>\<open>isinstance(v, int)\<close>: true of an \<^verbatim>\<open>int\<close> and of a \<^verbatim>\<open>bool\<close>.\<close>

fun isinstance_int :: "pyval \<Rightarrow> bool" where
  "isinstance_int (PyInt n) = True"
| "isinstance_int (PyBool b) = True"
| "isinstance_int v = False"

text \<open>\<^verbatim>\<open>v <= 0\<close>: numbers compare, anything else raises \<^verbatim>\<open>TypeError\<close> in Python 3.\<close>

fun py_le_zero :: "pyval \<Rightarrow> error + bool" where
  "py_le_zero (PyInt n) = Inr (n \<le> 0)"
| "py_le_zero (PyBool b) = Inr (\<not> b)"
| "py_le_zero (PyFloat r) = Inr (r \<le> 0)"
| "py_le_zero v = Inl TypeError"

text \<open>\<^verbatim>\<open>v - 1\<close>.\<close>

fun py_sub_one :: "pyval \<Rightarrow> error + pyval" where
  "py_sub_one (PyInt n) = Inr (PyInt (n - 1))"
| "py_sub_one (PyBool b) = Inr (PyInt (of_bool b - 1))"
| "py_sub_one (PyFloat r) = Inr (PyFloat (r - 1))"
| "py_sub_one v = Inl TypeError"

text \<open>The integer a value stands for as an argument of \<^verbatim>\<open>range\<close>.\<close>

fun py_index :: "pyval \<Rightarrow> error + int" where
  "py_index (PyInt n) = Inr n"
| "py_index (PyBool b) = Inr (of_bool b)"
| "py_index v = Inl TypeError"

text \<open>\<^verbatim>\<open>len(v)\<close>.\<close>

fun py_len :: "pyval \<Rightarrow> error + int" where
  "py_len (PyStr s) = Inr (int (length s))"
| "py_len (PyTuple xs) = Inr (int (length xs))"
| "py_len (PyList xs) = Inr (int (length xs))"
| "py_len (PyDict kvs) = Inr (int (length kvs))"
| "py_len v = Inl TypeError"

text \<open>\<^verbatim>\<open>list(range(a, b))\<close>: the loop that counts from \<open>a\<close> up to, not including, \<open>b\<close>.\<close>

function py_range :: "int \<Rightarrow> int \<Rightarrow> int list" where
  "py_range a b = (if a < b then a # py_range (a + 1) b else [])"
  by pat_completeness auto
termination
  by (relation "measure (\<lambda>(a, b). nat (b - a))") auto

declare py_range.simps [simp del]

text \<open>\<^verbatim>\<open>xs.index(x)\<close>: the position of the first element equal to \<open>x\<close>.\<close>

fun list_index :: "'a list \<Rightarrow> 'a \<Rightarrow> error + nat" where
  "list_index [] x = Inl (ValueError ListIndex)"
| "list_index (y # ys) x =
     (if y = x then Inr 0
      else case list_index ys x of Inl e \<Rightarrow> Inl e | Inr i \<Rightarrow> Inr (Suc i))"

text \<open>
  \<^verbatim>\<open>str.strip()\<close>. A \<open>char\<close> is one of the first 256 code points; among them the white
  space that \<^verbatim>\<open>strip\<close> removes (\<^verbatim>\<open>str.isspace\<close>) is 9 to 13, 28 to 32, 133 and 160.
\<close>

definition py_isspace :: "char \<Rightarrow> bool" where
  "py_isspace c =
     (let n = (of_char c :: nat)
      in (9 \<le> n \<and> n \<le> 13) \<or> (28 \<le> n \<and> n \<le> 32) \<or> n = 133 \<or> n = 160)"

definition py_strip :: "string \<Rightarrow> string" where
  "py_strip s = rev (dropWhile py_isspace (rev (dropWhile py_isspace s)))"

text \<open>
  \<^verbatim>\<open>int(s)\<close> on text, in base 10. \<^verbatim>\<open>int\<close> skips white space at both ends, but a smaller
  set than \<^verbatim>\<open>strip\<close> does: 9 to 13, 32, 133 and 160; the separators 28 to 31 are not
  skipped, and make the text no literal. Then comes an optional sign and then the
  digits \<open>0\<close> to \<open>9\<close>, where single underscores may stand between two digits. The
  interpreter's bound on the number of digits (4300 by default, from Python 3.11 on) is
  not modelled.
\<close>

definition py_int_space :: "char \<Rightarrow> bool" where
  "py_int_space c =
     (let n = (of_char c :: nat)
      in (9 \<le> n \<and> n \<le> 13) \<or> n = 32 \<or> n = 133 \<or> n = 160)"

definition py_isdigit :: "char \<Rightarrow> bool" where
  "py_isdigit c = (let n = (of_char c :: nat) in 48 \<le> n \<and> n \<le> 57)"

definition digit_value :: "char \<Rightarrow> int" where
  "digit_value c = int (of_char c) - 48"

fun py_digits :: "string \<Rightarrow> int \<Rightarrow> int option" where
  "py_digits [] acc = Some acc"
| "py_digits [c] acc = (if py_isdigit c then Some (10 * acc + digit_value c) else None)"
| "py_digits (c # d # cs) acc =
     (if py_isdigit c then py_digits (d # cs) (10 * acc + digit_value c)
      else if c = CHR ''_'' \<and> py_isdigit d then py_digits (d # cs) acc
      else None)"

definition py_digit_string :: "string \<Rightarrow> int option" where
  "py_digit_string s =
     (case s of [] \<Rightarrow> None
      | c # cs \<Rightarrow> if py_isdigit c then py_digits s 0 else None)"

definition py_int :: "string \<Rightarrow> error + int" where
  "py_int s =
     (let t = rev (dropWhile py_int_space (rev (dropWhile py_int_space s)));
          r = (case t of [] \<Rightarrow> None
               | c # cs \<Rightarrow>
                   if c = CHR ''-'' then map_option uminus (py_digit_string cs)
                   else if c = CHR ''+'' then py_digit_string cs
                   else py_digit_string t)
      in case r of None \<Rightarrow> Inl ParseError | Some n \<Rightarrow> Inr n)"

section \<open>The index resolver (\<^verbatim>\<open>codex/cli/processor.py\<close>)\<close>

text \<open>
  \<^verbatim>\<open>resolve_int_list_arg(arg)\<close>. The tests are in the order of the source. A tuple is
  read as a range: \<^verbatim>\<open>arg[0]\<close> and \<^verbatim>\<open>arg[1]\<close> are fetched (\<^verbatim>\<open>IndexError\<close> on a tuple of
  fewer than two items), then \<^verbatim>\<open>range\<close> takes them as integers (\<^verbatim>\<open>TypeError\<close> if they
  are not). Whatever passes no test is returned as it is.
\<close>

fun resolve_int_list_arg :: "pyval \<Rightarrow> error + pyval" where
  "resolve_int_list_arg PyNone = Inr PyNone"
| "resolve_int_list_arg (PyInt n) = Inr (PyList [PyInt n])"
| "resolve_int_list_arg (PyBool b) = Inr (PyList [PyBool b])"
| "resolve_int_list_arg (PyStr s) =
     (case py_int s of Inl e \<Rightarrow> Inl e | Inr n \<Rightarrow> Inr (PyList [PyInt n]))"
| "resolve_int_list_arg (PyTuple []) = Inl IndexError"
| "resolve_int_list_arg (PyTuple [x]) = Inl IndexError"
| "resolve_int_list_arg (PyTuple (x # y # rest)) =
     (case py_index x of Inl e \<Rightarrow> Inl e
      | Inr a \<Rightarrow>
          (case py_index y of Inl e \<Rightarrow> Inl e
           | Inr b \<Rightarrow> Inr (PyList (map PyInt (py_range a b)))))"
| "resolve_int_list_arg arg = Inr arg"

text \<open>
  \<^verbatim>\<open>Processor.localhost\<close>, lines 90 to 100: the arguments with several admitted forms
  are resolved, then the dynamic defaults are set. Logging, the record of the execution
  and the run of the pipeline itself belong to other modules.
\<close>

record resolved_args =
  res_region_indexes :: pyval
  res_tile_indexes :: pyval
  res_gpus :: pyval
  res_config_dir :: string
  res_n_workers :: pyval

definition localhost_resolve ::
  "string \<Rightarrow> pyval \<Rightarrow> pyval \<Rightarrow> string option \<Rightarrow> pyval \<Rightarrow> pyval \<Rightarrow> error + resolved_args" where
  "localhost_resolve data_dir region_indexes_arg tile_indexes_arg config_dir n_workers gpus =
     (case resolve_int_list_arg region_indexes_arg of Inl e \<Rightarrow> Inl e
      | Inr ri \<Rightarrow>
     (case resolve_int_list_arg tile_indexes_arg of Inl e \<Rightarrow> Inl e
      | Inr ti \<Rightarrow>
     (case resolve_int_list_arg gpus of Inl e \<Rightarrow> Inl e
      | Inr g \<Rightarrow>
     (let cd = (case config_dir of None \<Rightarrow> data_dir | Some d \<Rightarrow> d)
      in if n_workers = PyNone
         then (if g \<noteq> PyNone
               then (case py_len g of Inl e \<Rightarrow> Inl e
                     | Inr n \<Rightarrow>
                         Inr \<lparr>res_region_indexes = ri, res_tile_indexes = ti, res_gpus = g,
                              res_config_dir = cd, res_n_workers = PyInt n\<rparr>)
               else Inr \<lparr>res_region_indexes = ri, res_tile_indexes = ti, res_gpus = g,
                         res_config_dir = cd, res_n_workers = PyInt 1\<rparr>)
         else Inr \<lparr>res_region_indexes = ri, res_tile_indexes = ti, res_gpus = g,
                   res_config_dir = cd, res_n_workers = n_workers\<rparr>))))"

section \<open>The configuration model (\<^verbatim>\<open>codex/config.py\<close>)\<close>

subsection \<open>The configuration dictionary\<close>

text \<open>
  \<^verbatim>\<open>CodexConfigV1\<close> wraps the dictionary \<^verbatim>\<open>_conf\<close>. The model keeps the keys that the
  functions below read, one field for each key, \<open>None\<close> for a key that is absent.
  The keys that the code uses in arithmetic or as names have the type the experiment
  schema gives them; the one-based index entries, whose type \<^verbatim>\<open>_validate\<close> inspects
  at run time, are Python values.
\<close>

record conf =
  k_all_channel_names :: "string list option"
  k_num_cycles :: "int option"
  k_channel_names :: "string list option"
  k_region_width :: "int option"
  k_region_height :: "int option"
  k_tiling_mode :: "string option"
  k_regIdx :: "pyval list option"
  k_driftCompReferenceCycle :: "pyval option"
  k_drift_comp_channel :: "pyval option"
  k_bestFocusReferenceCycle :: "pyval option"
  k_best_focus_channel :: "pyval option"

text \<open>\<^verbatim>\<open>d[k]\<close>: \<^verbatim>\<open>KeyError\<close> for an absent key.\<close>

definition getitem :: "'a option \<Rightarrow> error + 'a" where
  "getitem x = (case x of None \<Rightarrow> Inl KeyError | Some v \<Rightarrow> Inr v)"

text \<open>The empty dictionary, and \<^verbatim>\<open>d.update(e)\<close>: each key of \<open>e\<close> overwrites.\<close>

definition empty_conf :: conf where
  "empty_conf =
     \<lparr>k_all_channel_names = None, k_num_cycles = None, k_channel_names = None,
      k_region_width = None, k_region_height = None, k_tiling_mode = None,
      k_regIdx = None, k_driftCompReferenceCycle = None, k_drift_comp_channel = None,
      k_bestFocusReferenceCycle = None, k_best_focus_channel = None\<rparr>"

definition overwrite :: "'a option \<Rightarrow> 'a option \<Rightarrow> 'a option" where
  "overwrite old new = (case new of None \<Rightarrow> old | Some v \<Rightarrow> Some v)"

definition dict_update :: "conf \<Rightarrow> conf \<Rightarrow> conf" where
  "dict_update d e =
     \<lparr>k_all_channel_names = overwrite (k_all_channel_names d) (k_all_channel_names e),
      k_num_cycles = overwrite (k_num_cycles d) (k_num_cycles e),
      k_channel_names = overwrite (k_channel_names d) (k_channel_names e),
      k_region_width = overwrite (k_region_width d) (k_region_width e),
      k_region_height = overwrite (k_region_height d) (k_region_height e),
      k_tiling_mode = overwrite (k_tiling_mode d) (k_tiling_mode e),
      k_regIdx = overwrite (k_regIdx d) (k_regIdx e),
      k_driftCompReferenceCycle =
        overwrite (k_driftCompReferenceCycle d) (k_driftCompReferenceCycle e),
      k_drift_comp_channel = overwrite (k_drift_comp_channel d) (k_drift_comp_channel e),
      k_bestFocusReferenceCycle =
        overwrite (k_bestFocusReferenceCycle d) (k_bestFocusReferenceCycle e),
      k_best_focus_channel = overwrite (k_best_focus_channel d) (k_best_focus_channel e)\<rparr>"

subsection \<open>Properties\<close>

definition channel_names :: "conf \<Rightarrow> error + string list" where
  "channel_names c = getitem (k_all_channel_names c)"

definition n_cycles :: "conf \<Rightarrow> error + int" where
  "n_cycles c = getitem (k_num_cycles c)"

definition n_channels_per_cycle :: "conf \<Rightarrow> error + int" where
  "n_channels_per_cycle c =
     (case getitem (k_channel_names c) of Inl e \<Rightarrow> Inl e
      | Inr xs \<Rightarrow> Inr (int (length xs)))"

definition region_width :: "conf \<Rightarrow> error + int" where
  "region_width c = getitem (k_region_width c)"

definition region_height :: "conf \<Rightarrow> error + int" where
  "region_height c = getitem (k_region_height c)"

definition tiling_mode :: "conf \<Rightarrow> error + string" where
  "tiling_mode c = getitem (k_tiling_mode c)"

text \<open>\<^verbatim>\<open>[i - 1 for i in self._conf['regIdx']]\<close>: the first entry that fails ends the loop.\<close>

fun sub_one_each :: "pyval list \<Rightarrow> error + pyval list" where
  "sub_one_each [] = Inr []"
| "sub_one_each (i # rest) =
     (case py_sub_one i of Inl e \<Rightarrow> Inl e
      | Inr j \<Rightarrow> (case sub_one_each rest of Inl e \<Rightarrow> Inl e | Inr js \<Rightarrow> Inr (j # js)))"

definition region_indexes :: "conf \<Rightarrow> error + pyval list" where
  "region_indexes c =
     (case getitem (k_regIdx c) of Inl e \<Rightarrow> Inl e | Inr regs \<Rightarrow> sub_one_each regs)"

definition n_tiles_per_region :: "conf \<Rightarrow> error + int" where
  "n_tiles_per_region c =
     (case region_width c of Inl e \<Rightarrow> Inl e
      | Inr w \<Rightarrow> (case region_height c of Inl e \<Rightarrow> Inl e | Inr h \<Rightarrow> Inr (w * h)))"

text \<open>\<^verbatim>\<open>_n_actual_channels\<close> and \<^verbatim>\<open>_n_expected_channels\<close>.\<close>

definition n_actual_channels :: "conf \<Rightarrow> error + int" where
  "n_actual_channels c =
     (case channel_names c of Inl e \<Rightarrow> Inl e | Inr names \<Rightarrow> Inr (int (length names)))"

definition n_expected_channels :: "conf \<Rightarrow> error + int" where
  "n_expected_channels c =
     (case n_cycles c of Inl e \<Rightarrow> Inl e
      | Inr n \<Rightarrow> (case n_channels_per_cycle c of Inl e \<Rightarrow> Inl e | Inr k \<Rightarrow> Inr (n * k)))"

subsection \<open>Channel coordinates\<close>

text \<open>
  \<^verbatim>\<open>Config.get_channel_coordinates(channel_name)\<close>. Python's \<^verbatim>\<open>//\<close> and \<^verbatim>\<open>%\<close> on integers
  are \<open>div\<close> and \<open>mod\<close> on \<open>int\<close> (both round towards minus infinity), but raise
  \<^verbatim>\<open>ZeroDivisionError\<close> where HOL returns a value.
\<close>

definition get_channel_coordinates :: "conf \<Rightarrow> string \<Rightarrow> error + int \<times> int" where
  "get_channel_coordinates c channel_name =
     (case channel_names c of Inl e \<Rightarrow> Inl e
      | Inr names \<Rightarrow>
          if channel_name \<notin> set names then Inl LookupError
          else (case list_index names channel_name of Inl e \<Rightarrow> Inl e
                | Inr i \<Rightarrow>
                    (case n_cycles c of Inl e \<Rightarrow> Inl e
                     | Inr n \<Rightarrow>
                         if n = 0 then Inl ZeroDivisionError
                         else Inr (int i div n, int i mod n))))"

subsection \<open>Tile coordinates and work units\<close>

text \<open>
  The module \<^verbatim>\<open>codex.tiling\<close> is not among the sources. The functions that call it take
  \<^verbatim>\<open>tiling.get_tiling_by_name\<close> as a parameter: it maps a name to a tiling, or fails, and a
  tiling is its method \<^verbatim>\<open>coordinates_from_index(tile_index, w, h)\<close>.
\<close>

type_synonym tiling = "int \<Rightarrow> int \<Rightarrow> int \<Rightarrow> error + int \<times> int"

definition get_tile_coordinates ::
  "(string \<Rightarrow> error + tiling) \<Rightarrow> conf \<Rightarrow> int \<Rightarrow> error + int \<times> int" where
  "get_tile_coordinates by_name c itile =
     (case n_tiles_per_region c of Inl e \<Rightarrow> Inl e
      | Inr n \<Rightarrow>
          if itile \<ge> n then Inl RangeError
          else (case tiling_mode c of Inl e \<Rightarrow> Inl e
                | Inr m \<Rightarrow>
                    (case by_name m of Inl e \<Rightarrow> Inl e
                     | Inr tiler \<Rightarrow>
                         (case region_width c of Inl e \<Rightarrow> Inl e
                          | Inr w \<Rightarrow>
                              (case region_height c of Inl e \<Rightarrow> Inl e
                               | Inr h \<Rightarrow> tiler itile w h)))))"

record tile_indices =
  region_index :: pyval
  tile_index :: int
  tile_x :: int
  tile_y :: int

text \<open>
  \<^verbatim>\<open>Config.get_tile_indices()\<close>: the inner loop over the tiles of one region, the outer
  loop over the regions. \<^verbatim>\<open>n_tiles_per_region\<close> is read anew for each region, and not at
  all when there is no region.
\<close>

fun tile_loop ::
  "(string \<Rightarrow> error + tiling) \<Rightarrow> conf \<Rightarrow> pyval \<Rightarrow> int list \<Rightarrow> error + tile_indices list" where
  "tile_loop by_name c ireg [] = Inr []"
| "tile_loop by_name c ireg (itile # rest) =
     (case get_tile_coordinates by_name c itile of Inl e \<Rightarrow> Inl e
      | Inr (tx, ty) \<Rightarrow>
          (case tile_loop by_name c ireg rest of Inl e \<Rightarrow> Inl e
           | Inr us \<Rightarrow>
               Inr (\<lparr>region_index = ireg, tile_index = itile, tile_x = tx, tile_y = ty\<rparr> # us)))"

fun region_loop ::
  "(string \<Rightarrow> error + tiling) \<Rightarrow> conf \<Rightarrow> pyval list \<Rightarrow> error + tile_indices list" where
  "region_loop by_name c [] = Inr []"
| "region_loop by_name c (ireg # rest) =
     (case n_tiles_per_region c of Inl e \<Rightarrow> Inl e
      | Inr n \<Rightarrow>
          (case tile_loop by_name c ireg (py_range 0 n) of Inl e \<Rightarrow> Inl e
           | Inr us \<Rightarrow>
               (case region_loop by_name c rest of Inl e \<Rightarrow> Inl e
                | Inr vs \<Rightarrow> Inr (us @ vs))))"

definition get_tile_indices ::
  "(string \<Rightarrow> error + tiling) \<Rightarrow> conf \<Rightarrow> error + tile_indices list" where
  "get_tile_indices by_name c =
     (case region_indexes c of Inl e \<Rightarrow> Inl e | Inr regs \<Rightarrow> region_loop by_name c regs)"

text \<open>
  Modelled from the spec: the snake tiling of the module \<^verbatim>\<open>codex.tiling\<close>, which is not
  among the sources. A snake traversal fills row 0 left to right, row 1 right to left,
  alternating: the row of a tile is its index divided by the width, and the column is
  the remainder, counted from the right in an odd row.
\<close>

definition snake :: tiling where
  "snake itile w h =
     (if w = 0 then Inl ZeroDivisionError
      else (let y = itile div w; x = itile mod w
            in Inr (if even y then x else w - 1 - x, y)))"

text \<open>
  Modelled from the spec: \<^verbatim>\<open>tiling.get_tiling_by_name\<close> of the module \<^verbatim>\<open>codex.tiling\<close>,
  which is not among the sources. The tiling is selected by name, \<^verbatim>\<open>snake\<close> is the one
  built-in variant, and an unknown name fails with \<^verbatim>\<open>UnsupportedModeError\<close>.
\<close>

definition get_tiling_by_name :: "string \<Rightarrow> error + tiling" where
  "get_tiling_by_name name =
     (if name = ''snake'' then Inr snake else Inl UnsupportedModeError)"

subsection \<open>Validation\<close>

text \<open>
  The keys that \<^verbatim>\<open>validate_one_based_index\<close> is called with, and the entry of the
  dictionary under each as a Python value.
\<close>

datatype index_key =
    DriftCompReferenceCycle
  | Drift_comp_channel
  | BestFocusReferenceCycle
  | Best_focus_channel
  | RegIdx

fun conf_entry :: "conf \<Rightarrow> index_key \<Rightarrow> error + pyval" where
  "conf_entry c DriftCompReferenceCycle = getitem (k_driftCompReferenceCycle c)"
| "conf_entry c Drift_comp_channel = getitem (k_drift_comp_channel c)"
| "conf_entry c BestFocusReferenceCycle = getitem (k_bestFocusReferenceCycle c)"
| "conf_entry c Best_focus_channel = getitem (k_best_focus_channel c)"
| "conf_entry c RegIdx =
     (case getitem (k_regIdx c) of Inl e \<Rightarrow> Inl e | Inr regs \<Rightarrow> Inr (PyList regs))"

text \<open>
  \<^verbatim>\<open>validate_one_based_index(k, v=None)\<close>: when \<open>v\<close> is \<^verbatim>\<open>None\<close> the entry under \<open>k\<close> is
  taken. The test is \<^verbatim>\<open>v <= 0 or not isinstance(v, int)\<close>, the comparison first.
\<close>

definition validate_one_based_index :: "conf \<Rightarrow> index_key \<Rightarrow> pyval \<Rightarrow> error + unit" where
  "validate_one_based_index c k v0 =
     (case (if v0 = PyNone then conf_entry c k else Inr v0) of Inl e \<Rightarrow> Inl e
      | Inr v \<Rightarrow>
          (case py_le_zero v of Inl e \<Rightarrow> Inl e
           | Inr nonpositive \<Rightarrow>
               if nonpositive \<or> \<not> isinstance_int v then Inl ValidationError
               else Inr ()))"

fun validate_keys :: "conf \<Rightarrow> index_key list \<Rightarrow> error + unit" where
  "validate_keys c [] = Inr ()"
| "validate_keys c (k # ks) =
     (case validate_one_based_index c k PyNone of Inl e \<Rightarrow> Inl e
      | Inr u \<Rightarrow> validate_keys c ks)"

fun validate_regions :: "conf \<Rightarrow> pyval list \<Rightarrow> error + unit" where
  "validate_regions c [] = Inr ()"
| "validate_regions c (ireg # rest) =
     (case validate_one_based_index c RegIdx ireg of Inl e \<Rightarrow> Inl e
      | Inr u \<Rightarrow> validate_regions c rest)"

text \<open>\<^verbatim>\<open>CodexConfigV1._validate()\<close>; it returns the configuration itself.\<close>

definition validate :: "conf \<Rightarrow> error + conf" where
  "validate c =
     (case n_actual_channels c of Inl e \<Rightarrow> Inl e
      | Inr actual \<Rightarrow>
     (case n_expected_channels c of Inl e \<Rightarrow> Inl e
      | Inr expected \<Rightarrow>
          if actual \<noteq> expected then Inl ValidationError
          else
     (case validate_keys c
             [DriftCompReferenceCycle, Drift_comp_channel,
              BestFocusReferenceCycle, Best_focus_channel] of Inl e \<Rightarrow> Inl e
      | Inr u \<Rightarrow>
     (case getitem (k_regIdx c) of Inl e \<Rightarrow> Inl e
      | Inr regs \<Rightarrow>
     (case validate_regions c regs of Inl e \<Rightarrow> Inl e
      | Inr u' \<Rightarrow> Inr c)))))"

text \<open>What \<^verbatim>\<open>_validate\<close> lets through as a one-based index: a positive \<^verbatim>\<open>int\<close>, or \<^verbatim>\<open>True\<close>.\<close>

definition positive_int :: "pyval \<Rightarrow> bool" where
  "positive_int v = (case v of PyInt n \<Rightarrow> 0 < n | PyBool b \<Rightarrow> b | _ \<Rightarrow> False)"

subsection \<open>Loading\<close>

text \<open>
  The data directory as \<^verbatim>\<open>load\<close> reads it: the parsed \<^verbatim>\<open>Experiment.json\<close> and
  \<^verbatim>\<open>processingOptions.json\<close> and the lines of \<^verbatim>\<open>channelNames.txt\<close>, each \<open>None\<close> when the
  file does not exist.
\<close>

record data_dir =
  experiment_json :: "conf option"
  processing_options_json :: "conf option"
  channel_names_txt :: "string list option"

definition load_experiment_config :: "data_dir \<Rightarrow> error + conf" where
  "load_experiment_config d =
     (case experiment_json d of None \<Rightarrow> Inl MissingConfigError | Some x \<Rightarrow> Inr x)"

definition load_processing_options :: "data_dir \<Rightarrow> error + conf" where
  "load_processing_options d =
     (case processing_options_json d of None \<Rightarrow> Inr empty_conf | Some x \<Rightarrow> Inr x)"

definition load_channel_names :: "data_dir \<Rightarrow> error + string list" where
  "load_channel_names d =
     (case channel_names_txt d of None \<Rightarrow> Inl MissingConfigError
      | Some ls \<Rightarrow> Inr (map py_strip (filter (\<lambda>l. py_strip l \<noteq> []) ls)))"

text \<open>
  \<^verbatim>\<open>CodexConfigV1.load(data_dir, overrides)\<close>. \<open>load_merged\<close> is the dictionary that lines
  230 to 234 build; \<open>load\<close> wraps it and validates it (line 235). Overrides that are
  \<^verbatim>\<open>None\<close> or empty are skipped, which leaves the dictionary as an update by them would.
\<close>

definition load_merged :: "data_dir \<Rightarrow> conf option \<Rightarrow> error + conf" where
  "load_merged d overrides =
     (case load_experiment_config d of Inl e \<Rightarrow> Inl e
      | Inr experiment \<Rightarrow>
     (case load_processing_options d of Inl e \<Rightarrow> Inl e
      | Inr options \<Rightarrow>
     (case load_channel_names d of Inl e \<Rightarrow> Inl e
      | Inr names \<Rightarrow>
          (let conf1 = dict_update experiment options;
               conf2 = dict_update conf1 (empty_conf\<lparr>k_all_channel_names := Some names\<rparr>)
           in Inr (case overrides of None \<Rightarrow> conf2
                   | Some ov \<Rightarrow> if ov = empty_conf then conf2 else dict_update conf2 ov)))))"

definition load :: "data_dir \<Rightarrow> conf option \<Rightarrow> error + conf" where
  "load d overrides =
     (case load_merged d overrides of Inl e \<Rightarrow> Inl e | Inr c \<Rightarrow> validate c)"

section \<open>A sample experiment\<close>

text \<open>
  A data directory with two cycles of two channels, three regions of two by two tiles
  and no processing options; its channel-name file has a blank line and a padded name.
  \<open>example_conf\<close> is the configuration that loading it gives.
\<close>

definition example_experiment :: conf where
  "example_experiment =
     \<lparr>k_all_channel_names = None, k_num_cycles = Some 2,
      k_channel_names = Some [''CH1'', ''CH2''],
      k_region_width = Some 2, k_region_height = Some 2, k_tiling_mode = Some ''snake'',
      k_regIdx = Some [PyInt 1, PyInt 2, PyInt 3],
      k_driftCompReferenceCycle = Some (PyInt 1), k_drift_comp_channel = Some (PyInt 1),
      k_bestFocusReferenceCycle = Some (PyInt 1), k_best_focus_channel = Some (PyInt 2)\<rparr>"

definition example_dir :: data_dir where
  "example_dir =
     \<lparr>experiment_json = Some example_experiment, processing_options_json = None,
      channel_names_txt = Some [''DAPI'', ''CD4'', '' '', ''CD8  '', ''Ki67'']\<rparr>"

definition example_conf :: conf where
  "example_conf =
     example_experiment\<lparr>k_all_channel_names := Some [''DAPI'', ''CD4'', ''CD8'', ''Ki67'']\<rparr>"

text \<open>
  The same directory with a channel-name file that has the name \<open>blank\<close> twice, and
  with one that has three names where two cycles of two channels need four.
\<close>

definition repeated_dir :: data_dir where
  "repeated_dir =
     example_dir\<lparr>channel_names_txt := Some [''DAPI'', ''blank'', ''CD8'', ''blank'']\<rparr>"

definition repeated_conf :: conf where
  "repeated_conf =
     example_experiment\<lparr>k_all_channel_names := Some [''DAPI'', ''blank'', ''CD8'', ''blank'']\<rparr>"

definition short_dir :: data_dir where
  "short_dir = example_dir\<lparr>channel_names_txt := Some [''DAPI'', ''CD4'', ''CD8'']\<rparr>"

text \<open>Overrides of one key each, used to vary the sample.\<close>

definition override_tiling_mode :: "string \<Rightarrow> conf" where
  "override_tiling_mode m = empty_conf\<lparr>k_tiling_mode := Some m\<rparr>"

definition override_drift_cycle :: "pyval \<Rightarrow> conf" where
  "override_drift_cycle v = empty_conf\<lparr>k_driftCompReferenceCycle := Some v\<rparr>"

definition override_regIdx :: "pyval list \<Rightarrow> conf" where
  "override_regIdx regs = empty_conf\<lparr>k_regIdx := Some regs\<rparr>"

definition override_region_width :: "int \<Rightarrow> conf" where
  "override_region_width w = empty_conf\<lparr>k_region_width := Some w\<rparr>"

text \<open>The pair of region index and tile index that identifies a work unit.\<close>

definition unit_key :: "tile_indices \<Rightarrow> pyval \<times> int" where
  "unit_key u = (region_index u, tile_index u)"

section \<open>Facts about the builtins\<close>

lemma py_range_upto: "py_range a b = [a..b - 1]"
proof (induction a b rule: py_range.induct)
  case (1 a b)
  show ?case
  proof (cases "a < b")
    case True
    then have "py_range a b = a # py_range (a + 1) b"
      by (simp add: py_range.simps[of a b])
    also have "\<dots> = a # [a + 1..b - 1]" using 1 True by simp
    also have "\<dots> = [a..b - 1]" using True by (simp add: upto_rec1)
    finally show ?thesis .
  next
    case False
    then show ?thesis by (simp add: py_range.simps[of a b])
  qed
qed

lemma list_index_first:
  "i < length xs \<Longrightarrow> xs ! i = x \<Longrightarrow> (\<forall>j<i. xs ! j \<noteq> x) \<Longrightarrow> list_index xs x = Inr i"
proof (induction xs arbitrary: i)
  case Nil
  then show ?case by simp
next
  case (Cons y ys)
  show ?case
  proof (cases i)
    case 0
    with Cons.prems show ?thesis by simp
  next
    case (Suc k)
    from Cons.prems Suc have "y \<noteq> x" by auto
    moreover have "list_index ys x = Inr k"
    proof (rule Cons.IH)
      show "k < length ys" using Cons.prems Suc by simp
      show "ys ! k = x" using Cons.prems Suc by simp
      show "\<forall>j<k. ys ! j \<noteq> x"
      proof (intro allI impI)
        fix j assume "j < k"
        then have "Suc j < i" using Suc by simp
        with Cons.prems have "(y # ys) ! Suc j \<noteq> x" by blast
        then show "ys ! j \<noteq> x" by simp
      qed
    qed
    ultimately show ?thesis using Suc by simp
  qed
qed

lemma list_index_append:
  "x \<notin> set xs \<Longrightarrow> list_index (xs @ x # ys) x = Inr (length xs)"
  by (induction xs) auto

lemma div_mod_pair_inj:
  fixes n :: int
  assumes "n \<noteq> 0" "i div n = j div n" "i mod n = j mod n"
  shows "i = j"
proof -
  have "i = n * (i div n) + i mod n" by simp
  also have "\<dots> = n * (j div n) + j mod n" using assms by simp
  also have "\<dots> = j" by simp
  finally show ?thesis .
qed

text \<open>
  \<^verbatim>\<open>int\<close> on sample texts: padding and sign, underscores, and texts that are no
  literal; the separator 28 in front of a digit is one of them, although \<^verbatim>\<open>strip\<close>
  removes it.
\<close>

lemma py_int_examples:
  "py_int ''7'' = Inr 7"
  "py_int '' -12 '' = Inr (- 12)"
  "py_int ''+1_000'' = Inr 1000"
  "py_int [CHR 0xA0, CHR ''7'', CHR 0x85] = Inr 7"
  "py_int [CHR 0x1C, CHR ''7''] = Inl ParseError"
  "py_int ''1__0'' = Inl ParseError"
  "py_int ''7.0'' = Inl ParseError"
  "py_int [] = Inl ParseError"
  "py_int ''- 7'' = Inl ParseError"
  by code_simp+

lemma py_strip_separator: "py_strip [CHR 0x1C, CHR ''7''] = ''7''"
  by code_simp

section \<open>The index resolver\<close>

text \<open>
  C6. The resolver is a function of its argument alone, and shape by shape:
  \<^verbatim>\<open>None\<close> gives \<^verbatim>\<open>None\<close>; an integer \<open>n\<close> gives \<open>[n]\<close>; text that \<^verbatim>\<open>int\<close> reads as \<open>m\<close>
  gives \<open>[m]\<close>; a tuple that starts with the integers \<open>a\<close> and \<open>b\<close> gives
  \<open>[a, a + 1, ..., b - 1]\<close> whatever follows them, the empty list when \<open>b \<le> a\<close>; a list
  is returned as it is, order and duplicates kept.
\<close>

theorem resolve_int_list_arg_shapes:
  "resolve_int_list_arg PyNone = Inr PyNone \<and>
   resolve_int_list_arg (PyInt n) = Inr (PyList [PyInt n]) \<and>
   (py_int s = Inr m \<longrightarrow> resolve_int_list_arg (PyStr s) = Inr (PyList [PyInt m])) \<and>
   resolve_int_list_arg (PyTuple (PyInt a # PyInt b # rest))
     = Inr (PyList (map PyInt [a..b - 1])) \<and>
   (b \<le> a \<longrightarrow> resolve_int_list_arg (PyTuple (PyInt a # PyInt b # rest)) = Inr (PyList [])) \<and>
   resolve_int_list_arg (PyList xs) = Inr (PyList xs)"
  by (simp add: py_range_upto)

theorem resolve_int_list_arg_shapes_witness:
  "resolve_int_list_arg (PyInt 5) = Inr (PyList [PyInt 5]) \<and>
   resolve_int_list_arg (PyStr ''7'') = Inr (PyList [PyInt 7]) \<and>
   resolve_int_list_arg (PyTuple [PyInt 3, PyInt 3]) = Inr (PyList []) \<and>
   resolve_int_list_arg (PyTuple [PyInt 1, PyInt 4, PyStr ''x''])
     = Inr (PyList [PyInt 1, PyInt 2, PyInt 3]) \<and>
   resolve_int_list_arg (PyList [PyInt 2, PyInt 2, PyInt 9])
     = Inr (PyList [PyInt 2, PyInt 2, PyInt 9])"
proof -
  have s: "py_int ''7'' = Inr 7" by code_simp
  have u: "[1..4 - 1] = [1, 2, 3::int]" by code_simp
  from resolve_int_list_arg_shapes[of 5 "''7''" 7 3 3 "[]" "[PyInt 2, PyInt 2, PyInt 9]"] s
  have a: "resolve_int_list_arg (PyInt 5) = Inr (PyList [PyInt 5])"
    "resolve_int_list_arg (PyStr ''7'') = Inr (PyList [PyInt 7])"
    "resolve_int_list_arg (PyTuple [PyInt 3, PyInt 3]) = Inr (PyList [])"
    "resolve_int_list_arg (PyList [PyInt 2, PyInt 2, PyInt 9])
       = Inr (PyList [PyInt 2, PyInt 2, PyInt 9])"
    by simp_all
  from resolve_int_list_arg_shapes[of 5 "''7''" 7 1 4 "[PyStr ''x'']" "[]"] u
  have "resolve_int_list_arg (PyTuple [PyInt 1, PyInt 4, PyStr ''x''])
     = Inr (PyList [PyInt 1, PyInt 2, PyInt 3])"
    by simp
  with a show ?thesis by simp
qed

text \<open>
  C2. The resolver has no test for an unknown shape: a dictionary, a float or a list of
  strings comes back as it went in, and no error is raised.
\<close>

theorem resolve_undocumented_shape_counterexample:
  "resolve_int_list_arg (PyDict [(''gpu'', PyInt 0)]) = Inr (PyDict [(''gpu'', PyInt 0)]) \<and>
   resolve_int_list_arg (PyFloat (5 / 2)) = Inr (PyFloat (5 / 2)) \<and>
   resolve_int_list_arg (PyList [PyStr ''a'']) = Inr (PyList [PyStr ''a''])"
  by simp

text \<open>
  C2, amended. Every argument that is not \<^verbatim>\<open>None\<close>, not an \<^verbatim>\<open>int\<close> (or \<^verbatim>\<open>bool\<close>), not a
  \<^verbatim>\<open>str\<close> and not a \<^verbatim>\<open>tuple\<close> is returned unchanged.
\<close>

theorem resolve_other_shape_unchanged:
  assumes "arg \<noteq> PyNone" "\<not> isinstance_int arg"
    and "\<forall>s. arg \<noteq> PyStr s" "\<forall>xs. arg \<noteq> PyTuple xs"
  shows "resolve_int_list_arg arg = Inr arg"
  using assms by (cases arg) auto

theorem resolve_other_shape_unchanged_witness:
  "resolve_int_list_arg (PyDict [(''gpu'', PyInt 0)]) = Inr (PyDict [(''gpu'', PyInt 0)])"
  using resolve_other_shape_unchanged[of "PyDict [(''gpu'', PyInt 0)]"] by simp

text \<open>
  The errors the resolver does raise come from the text and tuple branches: text that
  is no integer literal, a tuple of fewer than two items, a tuple whose first two items
  are not integers.
\<close>

lemma resolve_failures:
  "py_int s = Inl e \<Longrightarrow> resolve_int_list_arg (PyStr s) = Inl e"
  "resolve_int_list_arg (PyTuple []) = Inl IndexError"
  "resolve_int_list_arg (PyTuple [x]) = Inl IndexError"
  "py_index x = Inl e \<Longrightarrow> resolve_int_list_arg (PyTuple (x # y # rest)) = Inl e"
  by simp_all

text \<open>
  C9. With no worker count given (\<^verbatim>\<open>n_workers\<close> is \<^verbatim>\<open>None\<close>) and the region and tile
  arguments resolved, the worker count is the length of the resolved GPU list when the
  GPU argument resolves to a list, and 1 when no GPU argument is given.
\<close>

theorem localhost_default_worker_count:
  assumes "resolve_int_list_arg region_indexes_arg = Inr ri"
    and "resolve_int_list_arg tile_indexes_arg = Inr ti"
  shows "(resolve_int_list_arg gpus = Inr (PyList g) \<longrightarrow>
            localhost_resolve data_dir region_indexes_arg tile_indexes_arg config_dir PyNone gpus
              = Inr \<lparr>res_region_indexes = ri, res_tile_indexes = ti, res_gpus = PyList g,
                     res_config_dir = (case config_dir of None \<Rightarrow> data_dir | Some d \<Rightarrow> d),
                     res_n_workers = PyInt (int (length g))\<rparr>) \<and>
         localhost_resolve data_dir region_indexes_arg tile_indexes_arg config_dir PyNone PyNone
           = Inr \<lparr>res_region_indexes = ri, res_tile_indexes = ti, res_gpus = PyNone,
                  res_config_dir = (case config_dir of None \<Rightarrow> data_dir | Some d \<Rightarrow> d),
                  res_n_workers = PyInt 1\<rparr>"
  using assms by (simp add: localhost_resolve_def)

theorem localhost_default_worker_count_witness:
  "map_sum id res_n_workers
     (localhost_resolve ''data'' PyNone PyNone None PyNone (PyList [PyInt 0, PyInt 2]))
     = Inr (PyInt 2) \<and>
   map_sum id res_n_workers (localhost_resolve ''data'' PyNone PyNone None PyNone PyNone)
     = Inr (PyInt 1)"
proof -
  have a: "resolve_int_list_arg PyNone = Inr PyNone" by simp
  have g: "resolve_int_list_arg (PyList [PyInt 0, PyInt 2]) = Inr (PyList [PyInt 0, PyInt 2])"
    by simp
  from localhost_default_worker_count[OF a a, of "PyList [PyInt 0, PyInt 2]"
      "[PyInt 0, PyInt 2]" "''data''" None] g
  show ?thesis by simp
qed

section \<open>Validation and loading\<close>

lemma validate_returns_self: "validate c = Inr c' \<Longrightarrow> c' = c"
  by (auto simp: validate_def split: sum.splits if_splits)

lemma validate_channel_count:
  assumes "validate c = Inr c'"
  shows "\<exists>names n k. channel_names c = Inr names \<and> n_cycles c = Inr n \<and>
           n_channels_per_cycle c = Inr k \<and> int (length names) = n * k"
  using assms
  by (auto simp: validate_def n_actual_channels_def n_expected_channels_def
           split: sum.splits if_splits)

lemma validated_cycles_nonzero:
  assumes "validate c = Inr c'" "channel_names c = Inr names" "n_cycles c = Inr n"
    and "names \<noteq> []"
  shows "n \<noteq> 0"
proof
  assume "n = 0"
  from validate_channel_count[OF assms(1)] assms(2,3)
  obtain k where "int (length names) = n * k" by auto
  with \<open>n = 0\<close> assms(4) show False by simp
qed

text \<open>
  C4. When the dictionary that \<open>load\<close> has merged has a channel-name list whose
  length differs from \<open>n_cycles * n_channels_per_cycle\<close>, \<open>load\<close> fails with the
  validation error. A configuration that \<open>load\<close> returns is the merged dictionary,
  and in it the length of the channel-name list equals that product.
\<close>

theorem load_checks_channel_count:
  "(load_merged d overrides = Inr c \<and> channel_names c = Inr names \<and> n_cycles c = Inr n \<and>
      n_channels_per_cycle c = Inr k \<and> int (length names) \<noteq> n * k
      \<longrightarrow> load d overrides = Inl ValidationError) \<and>
   (load d overrides = Inr c' \<longrightarrow>
      load_merged d overrides = Inr c' \<and>
      (\<exists>names' n' k'. channel_names c' = Inr names' \<and> n_cycles c' = Inr n' \<and>
         n_channels_per_cycle c' = Inr k' \<and> int (length names') = n' * k'))"
proof (intro conjI impI)
  assume a: "load_merged d overrides = Inr c \<and> channel_names c = Inr names \<and>
    n_cycles c = Inr n \<and> n_channels_per_cycle c = Inr k \<and> int (length names) \<noteq> n * k"
  then have "validate c = Inl ValidationError"
    by (simp add: validate_def n_actual_channels_def n_expected_channels_def)
  with a show "load d overrides = Inl ValidationError" by (simp add: load_def)
next
  assume l: "load d overrides = Inr c'"
  then obtain c0 where m: "load_merged d overrides = Inr c0" and v: "validate c0 = Inr c'"
    by (auto simp: load_def split: sum.splits)
  from validate_returns_self[OF v] have eq: "c' = c0" .
  show "load_merged d overrides = Inr c'" using m eq by simp
  show "\<exists>names' n' k'. channel_names c' = Inr names' \<and> n_cycles c' = Inr n' \<and>
         n_channels_per_cycle c' = Inr k' \<and> int (length names') = n' * k'"
    using validate_channel_count[OF v] eq by simp
qed

theorem load_checks_channel_count_witness:
  "load short_dir None = Inl ValidationError \<and> load example_dir None = Inr example_conf \<and>
   load_merged example_dir None = Inr example_conf"
proof -
  let ?s = "example_experiment\<lparr>k_all_channel_names := Some [''DAPI'', ''CD4'', ''CD8'']\<rparr>"
  have m: "load_merged short_dir None = Inr ?s" by code_simp
  have names: "channel_names ?s = Inr [''DAPI'', ''CD4'', ''CD8'']" by code_simp
  have n: "n_cycles ?s = Inr 2" by code_simp
  have k: "n_channels_per_cycle ?s = Inr 2" by code_simp
  from load_checks_channel_count[where d = short_dir and overrides = None and c = ?s
      and names = "[''DAPI'', ''CD4'', ''CD8'']" and n = 2 and k = 2]
    m names n k
  have a: "load short_dir None = Inl ValidationError" by simp
  have l: "load example_dir None = Inr example_conf" by code_simp
  from load_checks_channel_count[where d = example_dir and overrides = None
      and c' = example_conf] l
  have "load_merged example_dir None = Inr example_conf" by blast
  with a l show ?thesis by simp
qed

text \<open>
  What \<^verbatim>\<open>validate_one_based_index\<close> does by the type of the value: an integer passes
  when it is positive, a float never passes, and on a string the comparison with zero
  raises before the type is looked at.
\<close>

lemma validate_one_based_index_int:
  "validate_one_based_index c k (PyInt n) = (if n \<le> 0 then Inl ValidationError else Inr ())"
  by (simp add: validate_one_based_index_def)

lemma validate_one_based_index_float:
  "validate_one_based_index c k (PyFloat r) = Inl ValidationError"
  by (simp add: validate_one_based_index_def)

lemma validate_one_based_index_str:
  "validate_one_based_index c k (PyStr s) = Inl TypeError"
  by (simp add: validate_one_based_index_def)

lemma sub_one_each_ints: "sub_one_each (map PyInt ns) = Inr (map (\<lambda>n. PyInt (n - 1)) ns)"
  by (induction ns) simp_all

lemma region_indexes_ints:
  "k_regIdx c = Some (map PyInt ns) \<Longrightarrow> region_indexes c = Inr (map (\<lambda>n. PyInt (n - 1)) ns)"
  by (simp add: region_indexes_def getitem_def sub_one_each_ints)

lemma regIdx_examples:
  "load example_dir (Some (override_regIdx [PyInt 0])) = Inl ValidationError"
  "load example_dir (Some (override_regIdx [PyInt (- 1)])) = Inl ValidationError"
  "load example_dir (Some (override_regIdx [PyFloat (3 / 2)])) = Inl ValidationError"
  "load example_dir (Some (override_regIdx [PyInt 1]))
     = Inr (example_conf\<lparr>k_regIdx := Some [PyInt 1]\<rparr>)"
  "region_indexes (example_conf\<lparr>k_regIdx := Some [PyInt 1]\<rparr>) = Inr [PyInt 0]"
  by code_simp+

text \<open>
  A configuration that passes \<^verbatim>\<open>_validate\<close> has a positive integer under each of the four
  reference keys and at each entry of \<^verbatim>\<open>regIdx\<close>.
\<close>

lemma validated_entry_positive:
  assumes "validate_one_based_index c k PyNone = Inr u" "conf_entry c k = Inr v"
  shows "positive_int v"
  using assms
  by (cases v)
    (auto simp: validate_one_based_index_def positive_int_def split: sum.splits if_splits)

lemma validated_region_entry_positive:
  assumes "validate_one_based_index c RegIdx v = Inr u"
  shows "positive_int v"
  using assms
  by (cases v) (auto simp: validate_one_based_index_def positive_int_def getitem_def
      split: sum.splits if_splits option.splits)

lemma validated_regions_positive:
  "validate_regions c regs = Inr u \<Longrightarrow> \<forall>v\<in>set regs. positive_int v"
proof (induction regs)
  case Nil
  show ?case by simp
next
  case (Cons v regs)
  from Cons.prems obtain u' where "validate_one_based_index c RegIdx v = Inr u'"
    and "validate_regions c regs = Inr u"
    by (auto split: sum.splits)
  with Cons.IH validated_region_entry_positive show ?case by auto
qed

lemma validated_keys_positive:
  "validate_keys c ks = Inr u \<Longrightarrow> k \<in> set ks \<Longrightarrow>
     \<exists>v. conf_entry c k = Inr v \<and> positive_int v"
proof (induction ks)
  case Nil
  then show ?case by simp
next
  case (Cons k' ks)
  from Cons.prems(1) obtain u' where a: "validate_one_based_index c k' PyNone = Inr u'"
    and b: "validate_keys c ks = Inr u"
    by (auto split: sum.splits)
  show ?case
  proof (cases "k = k'")
    case True
    from a obtain v where "conf_entry c k' = Inr v"
      by (auto simp: validate_one_based_index_def split: sum.splits)
    with a validated_entry_positive True show ?thesis by blast
  next
    case False
    with Cons b show ?thesis by auto
  qed
qed

lemma validated_indexes_positive:
  assumes "validate c = Inr c'"
  shows "(\<forall>k\<in>{DriftCompReferenceCycle, Drift_comp_channel, BestFocusReferenceCycle,
               Best_focus_channel}. \<exists>v. conf_entry c k = Inr v \<and> positive_int v) \<and>
         (\<exists>regs. k_regIdx c = Some regs \<and> (\<forall>v\<in>set regs. positive_int v))"
proof -
  from assms obtain u regs u' where
    ks: "validate_keys c [DriftCompReferenceCycle, Drift_comp_channel,
              BestFocusReferenceCycle, Best_focus_channel] = Inr u" and
    r: "k_regIdx c = Some regs" and rs: "validate_regions c regs = Inr u'"
    by (auto simp: validate_def getitem_def split: sum.splits if_splits option.splits)
  have "\<exists>v. conf_entry c k = Inr v \<and> positive_int v"
    if "k \<in> {DriftCompReferenceCycle, Drift_comp_channel, BestFocusReferenceCycle,
               Best_focus_channel}" for k
    using validated_keys_positive[OF ks, of k] that by simp
  moreover have "\<forall>v\<in>set regs. positive_int v" using validated_regions_positive[OF rs] .
  ultimately show ?thesis using r by blast
qed

text \<open>
  C5. A reference cycle given as the string \<open>1\<close>, a region index given as the string
  \<open>2\<close> and a region index that is \<^verbatim>\<open>None\<close> are not positive integers, and loading
  fails on each of them, but with \<^verbatim>\<open>TypeError\<close>, not with the validation error: the test
  \<^verbatim>\<open>v <= 0 or not isinstance(v, int)\<close> compares first.
\<close>

theorem validate_index_type_error:
  "load example_dir (Some (override_drift_cycle (PyStr ''1''))) = Inl TypeError \<and>
   load example_dir (Some (override_regIdx [PyInt 1, PyStr ''2''])) = Inl TypeError \<and>
   load example_dir (Some (override_regIdx [PyInt 1, PyNone])) = Inl TypeError"
  by code_simp

section \<open>Channel coordinates\<close>

lemma coordinates_at_first:
  assumes "channel_names c = Inr names" "n_cycles c = Inr n" "n \<noteq> 0"
    and "i < length names" "\<forall>j<i. names ! j \<noteq> names ! i"
  shows "get_channel_coordinates c (names ! i) = Inr (int i div n, int i mod n)"
proof -
  have "list_index names (names ! i) = Inr i"
    using assms(4,5) by (intro list_index_first) auto
  moreover have "names ! i \<in> set names" using assms(4) by simp
  ultimately show ?thesis using assms(1-3) by (simp add: get_channel_coordinates_def)
qed

text \<open>
  C1. In the configuration loaded from a channel-name file that has \<open>blank\<close> at
  positions 1 and 3, with two cycles, the name at position 3 is \<open>blank\<close>, and its
  coordinates are \<open>(0, 1)\<close>, those of position 1, not \<open>(3 // 2, 3 % 2)\<close>.
\<close>

theorem get_channel_coordinates_position_counterexample:
  "load repeated_dir None = Inr repeated_conf \<and>
   channel_names repeated_conf = Inr [''DAPI'', ''blank'', ''CD8'', ''blank''] \<and>
   n_cycles repeated_conf = Inr 2 \<and>
   [''DAPI'', ''blank'', ''CD8'', ''blank''] ! 3 = ''blank'' \<and>
   get_channel_coordinates repeated_conf ''blank'' = Inr (0, 1) \<and>
   get_channel_coordinates repeated_conf ''blank'' \<noteq> Inr (int 3 div 2, int 3 mod 2)"
  by code_simp

text \<open>
  C1, amended. In a validated configuration, a channel name whose first occurrence in
  the flat channel-name list is at position \<open>i\<close> has the coordinates
  \<open>(i // n_cycles, i % n_cycles)\<close>: the divisor and the modulus are \<open>n_cycles\<close>.
\<close>

theorem get_channel_coordinates_first_position:
  assumes "validate c = Inr c" "channel_names c = Inr names" "n_cycles c = Inr n"
    and "i < length names" "\<forall>j<i. names ! j \<noteq> names ! i"
  shows "get_channel_coordinates c (names ! i) = Inr (int i div n, int i mod n)"
proof -
  have "names \<noteq> []" using assms(4) by auto
  then have "n \<noteq> 0" using validated_cycles_nonzero assms(1-3) by blast
  then show ?thesis using coordinates_at_first assms(2-5) by blast
qed

theorem get_channel_coordinates_first_position_witness:
  "validate example_conf = Inr example_conf \<and>
   get_channel_coordinates example_conf ''CD8'' = Inr (1, 0)"
proof -
  have v: "validate example_conf = Inr example_conf" by code_simp
  have names: "channel_names example_conf = Inr [''DAPI'', ''CD4'', ''CD8'', ''Ki67'']"
    by code_simp
  have n: "n_cycles example_conf = Inr 2" by code_simp
  have i: "(2::nat) < length [''DAPI'', ''CD4'', ''CD8'', ''Ki67'']" by simp
  have first: "\<forall>j<2. [''DAPI'', ''CD4'', ''CD8'', ''Ki67''] ! j
                 \<noteq> [''DAPI'', ''CD4'', ''CD8'', ''Ki67''] ! 2"
    by (simp add: less_Suc_eq numeral_2_eq_2)
  from get_channel_coordinates_first_position[OF v names n i first] v
  show ?thesis by simp
qed

text \<open>
  C10. In a validated configuration, when a name stands in the channel-name list
  after the names \<open>xs\<close>, none of which is that name, its coordinates are those of the
  position \<open>length xs\<close> of this first occurrence, and they are the coordinates of no
  later position: an occurrence further down the list is never the one found.
\<close>

theorem get_channel_coordinates_repeated_name:
  assumes "validate c = Inr c" "channel_names c = Inr (xs @ name # ys)"
    and "name \<notin> set xs" "n_cycles c = Inr n"
  shows "get_channel_coordinates c name
           = Inr (int (length xs) div n, int (length xs) mod n) \<and>
         (\<forall>j. length xs < j \<longrightarrow>
              get_channel_coordinates c name \<noteq> Inr (int j div n, int j mod n))"
proof -
  have nz: "n \<noteq> 0" using validated_cycles_nonzero[OF assms(1,2,4)] by simp
  have first: "get_channel_coordinates c name
           = Inr (int (length xs) div n, int (length xs) mod n)"
    using assms(2-4) nz list_index_append[OF assms(3), of ys]
    by (simp add: get_channel_coordinates_def)
  have "get_channel_coordinates c name \<noteq> Inr (int j div n, int j mod n)"
    if "length xs < j" for j
  proof
    assume "get_channel_coordinates c name = Inr (int j div n, int j mod n)"
    with first have "int (length xs) div n = int j div n"
      and "int (length xs) mod n = int j mod n"
      by simp_all
    then have "int (length xs) = int j" using div_mod_pair_inj[OF nz] by blast
    with that show False by simp
  qed
  with first show ?thesis by blast
qed

theorem get_channel_coordinates_repeated_name_witness:
  "validate repeated_conf = Inr repeated_conf \<and>
   get_channel_coordinates repeated_conf ''blank'' = Inr (0, 1) \<and>
   get_channel_coordinates repeated_conf ''blank'' \<noteq> Inr (1, 1)"
proof -
  have v: "validate repeated_conf = Inr repeated_conf" by code_simp
  have names: "channel_names repeated_conf = Inr ([''DAPI''] @ ''blank'' # [''CD8'', ''blank''])"
    by code_simp
  have n: "n_cycles repeated_conf = Inr 2" by code_simp
  have notin: "''blank'' \<notin> set [''DAPI'']" by simp
  from get_channel_coordinates_repeated_name[OF v names notin n]
  have a: "get_channel_coordinates repeated_conf ''blank''
            = Inr (int (length [''DAPI'']) div 2, int (length [''DAPI'']) mod 2)"
    and b: "length [''DAPI''] < 3 \<longrightarrow>
            get_channel_coordinates repeated_conf ''blank'' \<noteq> Inr (int 3 div 2, int 3 mod 2)"
    by blast+
  from a have "get_channel_coordinates repeated_conf ''blank'' = Inr (0, 1)" by simp
  moreover from b have "get_channel_coordinates repeated_conf ''blank'' \<noteq> Inr (1, 1)" by simp
  ultimately show ?thesis using v by simp
qed

section \<open>Tile coordinates and work units\<close>

text \<open>
  C8. A tile index that is at least \<open>n_tiles_per_region\<close>, the product of the region's
  width and height, makes \<open>get_tile_coordinates\<close> fail with the range error, whatever
  the tiling is.
\<close>

theorem get_tile_coordinates_out_of_range:
  assumes "n_tiles_per_region c = Inr n" "itile \<ge> n"
  shows "get_tile_coordinates by_name c itile = Inl RangeError"
  using assms by (simp add: get_tile_coordinates_def)

theorem get_tile_coordinates_out_of_range_witness:
  "n_tiles_per_region example_conf = Inr (2 * 2) \<and>
   get_tile_coordinates get_tiling_by_name example_conf 4 = Inl RangeError"
proof -
  have n: "n_tiles_per_region example_conf = Inr 4" by code_simp
  from get_tile_coordinates_out_of_range[OF n, of 4 get_tiling_by_name] n
  show ?thesis by simp
qed

lemma validate_ignores_tiling_mode:
  "validate (c\<lparr>k_tiling_mode := m\<rparr>)
     = (case validate c of Inl e \<Rightarrow> Inl e | Inr c' \<Rightarrow> Inr (c'\<lparr>k_tiling_mode := m\<rparr>))"
proof -
  have vk: "validate_one_based_index (c\<lparr>k_tiling_mode := m\<rparr>) k v
              = validate_one_based_index c k v" for k v
    by (cases k) (simp_all add: validate_one_based_index_def)
  have ks: "validate_keys (c\<lparr>k_tiling_mode := m\<rparr>) ks = validate_keys c ks" for ks
    by (induction ks) (simp_all add: vk split: sum.splits)
  have rs: "validate_regions (c\<lparr>k_tiling_mode := m\<rparr>) rs = validate_regions c rs" for rs
    by (induction rs) (simp_all add: vk split: sum.splits)
  show ?thesis
    unfolding validate_def ks rs
    by (simp add: n_actual_channels_def n_expected_channels_def channel_names_def
        n_cycles_def n_channels_per_cycle_def split: sum.splits)
qed

text \<open>
  C3. Loading the sample with the tiling mode \<open>zigzag\<close>, a name that
  \<open>get_tiling_by_name\<close> rejects, returns a configuration: \<open>load\<close> does not resolve the
  tiling.
\<close>

theorem load_unknown_tiling_mode_counterexample:
  "get_tiling_by_name ''zigzag'' = Inl UnsupportedModeError \<and>
   load example_dir (Some (override_tiling_mode ''zigzag''))
     = Inr (example_conf\<lparr>k_tiling_mode := Some ''zigzag''\<rparr>)"
proof -
  have "get_tiling_by_name ''zigzag'' = Inl UnsupportedModeError"
    by (simp add: get_tiling_by_name_def)
  moreover have "load example_dir (Some (override_tiling_mode ''zigzag''))
     = Inr (example_conf\<lparr>k_tiling_mode := Some ''zigzag''\<rparr>)"
    by code_simp
  ultimately show ?thesis by simp
qed

text \<open>
  Replacing the tiling mode by an override changes nothing in what \<open>load\<close> does but
  the name in the configuration it returns.
\<close>

lemma load_merged_tiling_override:
  "load_merged d (Some (ov\<lparr>k_tiling_mode := Some m\<rparr>))
     = (case load_merged d (Some ov) of Inl e \<Rightarrow> Inl e
        | Inr c \<Rightarrow> Inr (c\<lparr>k_tiling_mode := Some m\<rparr>))"
proof -
  have ne: "ov\<lparr>k_tiling_mode := Some m\<rparr> \<noteq> empty_conf"
  proof
    assume "ov\<lparr>k_tiling_mode := Some m\<rparr> = empty_conf"
    then have "k_tiling_mode (ov\<lparr>k_tiling_mode := Some m\<rparr>) = k_tiling_mode empty_conf"
      by simp
    then show False by (simp add: empty_conf_def)
  qed
  have upd: "dict_update c (ov\<lparr>k_tiling_mode := Some m\<rparr>)
               = (dict_update c ov)\<lparr>k_tiling_mode := Some m\<rparr>" for c
    by (simp add: dict_update_def overwrite_def)
  have emp: "dict_update c empty_conf = c" for c
    by (simp add: dict_update_def overwrite_def empty_conf_def)
  show ?thesis
    using ne by (simp add: load_merged_def Let_def upd emp split: sum.splits)
qed

lemma load_merged_no_overrides: "load_merged d None = load_merged d (Some empty_conf)"
  by (simp add: load_merged_def Let_def split: sum.splits)

lemma load_tiling_override:
  "load d (Some (ov\<lparr>k_tiling_mode := Some m\<rparr>))
     = (case load d (Some ov) of Inl e \<Rightarrow> Inl e | Inr c \<Rightarrow> Inr (c\<lparr>k_tiling_mode := Some m\<rparr>))"
  by (simp add: load_def load_merged_tiling_override validate_ignores_tiling_mode
      split: sum.splits)

text \<open>
  C3, amended. The tiling is resolved from its configured name at each call of
  \<open>get_tile_coordinates\<close>, not when the configuration is loaded. Loading does not
  depend on the tiling-mode name: with any name \<open>m'\<close> set by the overrides, \<open>load\<close>
  fails with the same error as without it, or returns the same configuration with
  \<open>m'\<close> as its tiling mode; so a directory that loads, loads under every tiling-mode
  name, known or not. Validation of a loaded configuration holds under any other
  name. When the name of a loaded configuration is one that \<open>get_tiling_by_name\<close>
  rejects, a query with a tile index below \<open>n_tiles_per_region\<close> fails with the error
  of \<open>get_tiling_by_name\<close>.
\<close>

theorem tiling_resolved_at_query:
  "load d (Some (ov\<lparr>k_tiling_mode := Some m'\<rparr>))
     = (case load d (Some ov) of Inl e' \<Rightarrow> Inl e'
        | Inr c' \<Rightarrow> Inr (c'\<lparr>k_tiling_mode := Some m'\<rparr>)) \<and>
   (load d None = Inr c0 \<longrightarrow>
      load d (Some (override_tiling_mode m')) = Inr (c0\<lparr>k_tiling_mode := Some m'\<rparr>)) \<and>
   (load d overrides = Inr c \<and> tiling_mode c = Inr m \<and> by_name m = Inl e \<and>
    n_tiles_per_region c = Inr n \<and> itile < n \<longrightarrow>
      validate (c\<lparr>k_tiling_mode := Some m'\<rparr>) = Inr (c\<lparr>k_tiling_mode := Some m'\<rparr>) \<and>
      get_tile_coordinates by_name c itile = Inl e)"
proof (intro conjI impI)
  show "load d (Some (ov\<lparr>k_tiling_mode := Some m'\<rparr>))
     = (case load d (Some ov) of Inl e' \<Rightarrow> Inl e'
        | Inr c' \<Rightarrow> Inr (c'\<lparr>k_tiling_mode := Some m'\<rparr>))"
    by (rule load_tiling_override)
next
  assume "load d None = Inr c0"
  then have "load d (Some empty_conf) = Inr c0"
    by (simp add: load_def load_merged_no_overrides)
  then show "load d (Some (override_tiling_mode m')) = Inr (c0\<lparr>k_tiling_mode := Some m'\<rparr>)"
    unfolding override_tiling_mode_def by (simp add: load_tiling_override)
next
  assume a: "load d overrides = Inr c \<and> tiling_mode c = Inr m \<and> by_name m = Inl e \<and>
    n_tiles_per_region c = Inr n \<and> itile < n"
  then have "validate c = Inr c"
    using validate_returns_self by (auto simp: load_def split: sum.splits)
  then show "validate (c\<lparr>k_tiling_mode := Some m'\<rparr>) = Inr (c\<lparr>k_tiling_mode := Some m'\<rparr>)"
    by (simp add: validate_ignores_tiling_mode)
  show "get_tile_coordinates by_name c itile = Inl e"
    using a by (simp add: get_tile_coordinates_def)
qed

theorem tiling_resolved_at_query_witness:
  "load example_dir None = Inr example_conf \<and>
   load example_dir (Some (override_tiling_mode ''zigzag''))
     = Inr (example_conf\<lparr>k_tiling_mode := Some ''zigzag''\<rparr>) \<and>
   get_tile_coordinates get_tiling_by_name (example_conf\<lparr>k_tiling_mode := Some ''zigzag''\<rparr>) 0
     = Inl UnsupportedModeError \<and>
   validate example_conf = Inr example_conf"
proof -
  let ?c = "example_conf\<lparr>k_tiling_mode := Some ''zigzag''\<rparr>"
  have l0: "load example_dir None = Inr example_conf" by code_simp
  from tiling_resolved_at_query[where d = example_dir and c0 = example_conf
      and m' = "''zigzag''"] l0
  have l: "load example_dir (Some (override_tiling_mode ''zigzag'')) = Inr ?c"
    by blast
  have m: "tiling_mode ?c = Inr ''zigzag''" by code_simp
  have e: "get_tiling_by_name ''zigzag'' = Inl UnsupportedModeError"
    by (simp add: get_tiling_by_name_def)
  have n: "n_tiles_per_region ?c = Inr 4" by code_simp
  have same: "?c\<lparr>k_tiling_mode := Some ''snake''\<rparr> = example_conf" by code_simp
  from tiling_resolved_at_query[where d = example_dir
      and overrides = "Some (override_tiling_mode ''zigzag'')" and c = ?c
      and m = "''zigzag''" and by_name = get_tiling_by_name and e = UnsupportedModeError
      and n = 4 and itile = 0 and m' = "''snake''"] l m e n
  have "validate (?c\<lparr>k_tiling_mode := Some ''snake''\<rparr>)
          = Inr (?c\<lparr>k_tiling_mode := Some ''snake''\<rparr>)"
    and "get_tile_coordinates get_tiling_by_name ?c 0 = Inl UnsupportedModeError"
    by simp_all
  with l0 l same show ?thesis by simp
qed

subsection \<open>The enumeration of work units\<close>

lemma unit_key_record:
  "unit_key \<lparr>region_index = r, tile_index = i, tile_x = x, tile_y = y\<rparr> = (r, i)"
  by (simp add: unit_key_def)

lemma tile_coordinates_in_range:
  assumes "region_width c = Inr w" "region_height c = Inr h"
    and "tiling_mode c = Inr m" "by_name m = Inr tiler" "itile < w * h"
  shows "get_tile_coordinates by_name c itile = tiler itile w h"
  using assms by (simp add: get_tile_coordinates_def n_tiles_per_region_def)

lemma tile_loop_units:
  assumes "region_width c = Inr w" "region_height c = Inr h"
    and "tiling_mode c = Inr m" "by_name m = Inr tiler"
    and "\<forall>i\<in>set tiles. i < w * h \<and> (\<exists>xy. tiler i w h = Inr xy)"
  shows "\<exists>us. tile_loop by_name c r tiles = Inr us \<and> map unit_key us = map (Pair r) tiles \<and>
           (\<forall>u\<in>set us. tiler (tile_index u) w h = Inr (tile_x u, tile_y u))"
  using assms(5)
proof (induction tiles)
  case Nil
  show ?case by simp
next
  case (Cons i tiles)
  from Cons.prems obtain tx ty where xy: "tiler i w h = Inr (tx, ty)" and lt: "i < w * h"
    by fastforce
  have g: "get_tile_coordinates by_name c i = Inr (tx, ty)"
    using tile_coordinates_in_range[where by_name = by_name, OF assms(1-4) lt] xy by simp
  from Cons.IH Cons.prems obtain us where us: "tile_loop by_name c r tiles = Inr us"
    "map unit_key us = map (Pair r) tiles"
    "\<forall>u\<in>set us. tiler (tile_index u) w h = Inr (tile_x u, tile_y u)"
    by auto
  show ?case using g us xy by (simp add: unit_key_record)
qed

lemma region_loop_units:
  assumes "region_width c = Inr w" "region_height c = Inr h"
    and "tiling_mode c = Inr m" "by_name m = Inr tiler"
    and "\<forall>i. 0 \<le> i \<and> i < w * h \<longrightarrow> (\<exists>xy. tiler i w h = Inr xy)"
  shows "\<exists>units. region_loop by_name c regs = Inr units \<and>
           map unit_key units = concat (map (\<lambda>r. map (Pair r) [0..w * h - 1]) regs) \<and>
           (\<forall>u\<in>set units. tiler (tile_index u) w h = Inr (tile_x u, tile_y u))"
proof (induction regs)
  case Nil
  show ?case by simp
next
  case (Cons r regs)
  have n: "n_tiles_per_region c = Inr (w * h)"
    using assms(1,2) by (simp add: n_tiles_per_region_def)
  have "\<forall>i\<in>set (py_range 0 (w * h)). i < w * h \<and> (\<exists>xy. tiler i w h = Inr xy)"
    using assms(5) by (auto simp: py_range_upto)
  from tile_loop_units[where by_name = by_name and r = r, OF assms(1-4) this]
  obtain us where us: "tile_loop by_name c r (py_range 0 (w * h)) = Inr us"
    "map unit_key us = map (Pair r) [0..w * h - 1]"
    "\<forall>u\<in>set us. tiler (tile_index u) w h = Inr (tile_x u, tile_y u)"
    by (auto simp: py_range_upto)
  from Cons.IH obtain vs where vs: "region_loop by_name c regs = Inr vs"
    "map unit_key vs = concat (map (\<lambda>r. map (Pair r) [0..w * h - 1]) regs)"
    "\<forall>u\<in>set vs. tiler (tile_index u) w h = Inr (tile_x u, tile_y u)"
    by auto
  show ?case using n us vs by auto
qed

lemma validated_entry_sub_one:
  assumes "validate_one_based_index c RegIdx v = Inr u"
  shows "\<exists>j. py_sub_one v = Inr j"
  using assms
  by (cases v) (auto simp: validate_one_based_index_def getitem_def
      split: sum.splits if_splits option.splits)

lemma validated_regions_sub_one:
  "validate_regions c regs = Inr u \<Longrightarrow>
     \<exists>js. sub_one_each regs = Inr js \<and> length js = length regs"
proof (induction regs)
  case Nil
  show ?case by simp
next
  case (Cons v regs)
  from Cons.prems obtain u' where v: "validate_one_based_index c RegIdx v = Inr u'"
    and rest: "validate_regions c regs = Inr u"
    by (auto split: sum.splits)
  from validated_entry_sub_one[OF v] obtain j where "py_sub_one v = Inr j" by blast
  moreover from Cons.IH[OF rest] obtain js
    where "sub_one_each regs = Inr js" "length js = length regs"
    by blast
  ultimately show ?case by simp
qed

lemma validated_region_indexes:
  assumes "validate c = Inr c'"
  shows "\<exists>entries regs. k_regIdx c = Some entries \<and> region_indexes c = Inr regs \<and>
           length regs = length entries"
proof -
  from assms obtain entries u
    where "k_regIdx c = Some entries" "validate_regions c entries = Inr u"
    by (auto simp: validate_def getitem_def split: sum.splits if_splits option.splits)
  with validated_regions_sub_one show ?thesis
    by (fastforce simp: region_indexes_def getitem_def)
qed

lemma length_concat_pairs:
  "length (concat (map (\<lambda>r. map (Pair r) tiles) regs)) = length regs * length tiles"
  by (induction regs) simp_all

lemma distinct_concat_pairs:
  assumes "distinct regs" "distinct tiles"
  shows "distinct (concat (map (\<lambda>r. map (Pair r) tiles) regs))"
  using assms(1)
proof (induction regs)
  case Nil
  show ?case by simp
next
  case (Cons r regs)
  have "distinct (map (Pair r) tiles)" using assms(2) by (simp add: distinct_map inj_on_def)
  moreover have "set (map (Pair r) tiles)
                   \<inter> set (concat (map (\<lambda>r. map (Pair r) tiles) regs)) = {}"
    using Cons.prems by auto
  ultimately show ?case using Cons by simp
qed

text \<open>
  C7. Three validated configurations on which the count or the uniqueness fails. With
  the tiling mode \<open>zigzag\<close> the enumeration raises the error of the tiling lookup. With
  a region width of \<open>-2\<close> and a height of 2 there are three regions and no work unit,
  where the product of the three numbers is \<open>-12\<close>. With the region indexes \<open>[1, 1]\<close>
  every pair of region and tile comes twice.
\<close>

theorem get_tile_indices_counterexample:
  "load example_dir (Some (override_tiling_mode ''zigzag''))
     = Inr (example_conf\<lparr>k_tiling_mode := Some ''zigzag''\<rparr>) \<and>
   get_tile_indices get_tiling_by_name (example_conf\<lparr>k_tiling_mode := Some ''zigzag''\<rparr>)
     = Inl UnsupportedModeError \<and>
   load example_dir (Some (override_region_width (- 2)))
     = Inr (example_conf\<lparr>k_region_width := Some (- 2)\<rparr>) \<and>
   region_indexes (example_conf\<lparr>k_region_width := Some (- 2)\<rparr>)
     = Inr [PyInt 0, PyInt 1, PyInt 2] \<and>
   get_tile_indices get_tiling_by_name (example_conf\<lparr>k_region_width := Some (- 2)\<rparr>) = Inr [] \<and>
   int (length ([] :: tile_indices list)) \<noteq> 3 * (- 2) * 2 \<and>
   load example_dir (Some (override_regIdx [PyInt 1, PyInt 1]))
     = Inr (example_conf\<lparr>k_regIdx := Some [PyInt 1, PyInt 1]\<rparr>) \<and>
   map_sum id (map unit_key)
     (get_tile_indices get_tiling_by_name (example_conf\<lparr>k_regIdx := Some [PyInt 1, PyInt 1]\<rparr>))
     = Inr [(PyInt 0, 0), (PyInt 0, 1), (PyInt 0, 2), (PyInt 0, 3),
            (PyInt 0, 0), (PyInt 0, 1), (PyInt 0, 2), (PyInt 0, 3)]"
  by code_simp

text \<open>
  C7, amended. For a validated configuration whose tiling mode names a tiling that
  gives coordinates for every tile index from 0 up to \<open>n_tiles_per_region - 1\<close>,
  \<open>get_tile_indices\<close> returns the work units region by region, in the order of the
  region indexes, and within a region tile by tile from 0 up to
  \<open>n_tiles_per_region - 1\<close>, each with the coordinates the tiling gives. There is one
  region index for each configured entry. The number of units is the number of region
  indexes times \<open>n_tiles_per_region\<close>, counted as 0 when that product of width and
  height is negative. Each pair of region and tile appears once when the region
  indexes are distinct.
\<close>

theorem get_tile_indices_enumeration:
  assumes "validate c = Inr c"
    and "region_width c = Inr w" "region_height c = Inr h"
    and "tiling_mode c = Inr m" "by_name m = Inr tiler"
    and "\<forall>i. 0 \<le> i \<and> i < w * h \<longrightarrow> (\<exists>xy. tiler i w h = Inr xy)"
  shows "\<exists>entries regs units.
           k_regIdx c = Some entries \<and> region_indexes c = Inr regs \<and>
           length regs = length entries \<and>
           get_tile_indices by_name c = Inr units \<and>
           map unit_key units = concat (map (\<lambda>r. map (Pair r) [0..w * h - 1]) regs) \<and>
           length units = length regs * nat (w * h) \<and>
           (0 \<le> w * h \<longrightarrow> int (length units) = int (length regs) * w * h) \<and>
           (\<forall>u\<in>set units. tiler (tile_index u) w h = Inr (tile_x u, tile_y u)) \<and>
           (distinct regs \<longrightarrow> distinct (map unit_key units))"
proof -
  from validated_region_indexes[OF assms(1)] obtain entries regs
    where r: "k_regIdx c = Some entries" "region_indexes c = Inr regs"
      "length regs = length entries"
    by blast
  from region_loop_units[where by_name = by_name and regs = regs, OF assms(2-6)]
  obtain units
    where u: "region_loop by_name c regs = Inr units"
      "map unit_key units = concat (map (\<lambda>r. map (Pair r) [0..w * h - 1]) regs)"
      "\<forall>u\<in>set units. tiler (tile_index u) w h = Inr (tile_x u, tile_y u)"
    by blast
  have g: "get_tile_indices by_name c = Inr units"
    using r(2) u(1) by (simp add: get_tile_indices_def)
  have "length (map unit_key units) = length regs * length [0..w * h - 1]"
    unfolding u(2) by (rule length_concat_pairs)
  then have len: "length units = length regs * nat (w * h)" by simp
  have cnt: "int (length units) = int (length regs) * w * h" if "0 \<le> w * h"
    using len that by (simp add: mult.assoc)
  have d: "distinct (map unit_key units)" if "distinct regs"
    unfolding u(2) using that by (intro distinct_concat_pairs) simp_all
  show ?thesis using r g u(2,3) len cnt d by blast
qed

theorem get_tile_indices_enumeration_witness:
  "map_sum id (map unit_key) (get_tile_indices get_tiling_by_name example_conf)
     = Inr [(PyInt 0, 0), (PyInt 0, 1), (PyInt 0, 2), (PyInt 0, 3),
            (PyInt 1, 0), (PyInt 1, 1), (PyInt 1, 2), (PyInt 1, 3),
            (PyInt 2, 0), (PyInt 2, 1), (PyInt 2, 2), (PyInt 2, 3)] \<and>
   map_sum id length (get_tile_indices get_tiling_by_name example_conf) = Inr 12 \<and>
   map_sum id (distinct \<circ> map unit_key) (get_tile_indices get_tiling_by_name example_conf)
     = Inr True"
proof -
  have v: "validate example_conf = Inr example_conf" by code_simp
  have w: "region_width example_conf = Inr 2" by code_simp
  have h: "region_height example_conf = Inr 2" by code_simp
  have m: "tiling_mode example_conf = Inr ''snake''" by code_simp
  have t: "get_tiling_by_name ''snake'' = Inr snake" by (simp add: get_tiling_by_name_def)
  have ok: "\<forall>i. 0 \<le> i \<and> i < 2 * 2 \<longrightarrow> (\<exists>xy. snake i 2 2 = Inr xy)"
    by (simp add: snake_def Let_def)
  have regs: "region_indexes example_conf = Inr [PyInt 0, PyInt 1, PyInt 2]" by code_simp
  have tiles: "[0..2 * 2 - 1] = [0, 1, 2, 3::int]" by code_simp
  from get_tile_indices_enumeration[where by_name = get_tiling_by_name, OF v w h m t ok]
  obtain entries rs units where
    r: "region_indexes example_conf = Inr rs" and
    g: "get_tile_indices get_tiling_by_name example_conf = Inr units" and
    k: "map unit_key units = concat (map (\<lambda>r. map (Pair r) [0..2 * 2 - 1]) rs)" and
    l: "length units = length rs * nat (2 * 2)" and
    d: "distinct rs \<longrightarrow> distinct (map unit_key units)"
    by blast
  from r regs have rs: "rs = [PyInt 0, PyInt 1, PyInt 2]" by simp
  have "map unit_key units = [(PyInt 0, 0), (PyInt 0, 1), (PyInt 0, 2), (PyInt 0, 3),
            (PyInt 1, 0), (PyInt 1, 1), (PyInt 1, 2), (PyInt 1, 3),
            (PyInt 2, 0), (PyInt 2, 1), (PyInt 2, 2), (PyInt 2, 3)]"
    using k unfolding rs tiles by simp
  moreover have "length units = 12" using l rs by simp
  moreover have "distinct (map unit_key units)" using d rs by simp
  ultimately show ?thesis using g by simp
qed

end
